theory Spec2Isabelle
  imports Main "HOL-Library.Multiset" "HOL-Library.Char_ord" "HOL-Library.List_Lexorder"
begin

section \<open>The authentication broker of the plugin host (authentication-ext.ts)\<close>

text \<open>
  The class \<open>AuthenticationExtImpl\<close> keeps a map from provider id to provider, an
  ordered list of ids and a list of provider-information objects. Its methods are
  embedded as functions that take the instance and return the new instance together
  with the calls made on the collaborators (the remote proxy \<open>AuthenticationMain\<close>,
  the providers, the event emitters), in the order the source makes them.

  Strings are \<open>string\<close> with the lexicographic order on character codes, which is the
  order \<open>Array.prototype.sort()\<close> without a comparator uses on an array of strings.
  A call on the proxy or on a provider is modelled by the value it resolves to: a
  rejected promise of a collaborator is outside this model.
\<close>

subsection \<open>Array and string primitives of the language\<close>

text \<open>\<open>Array.prototype.join(sep)\<close> on an array of strings.\<close>

fun join :: "string \<Rightarrow> string list \<Rightarrow> string" where
  "join sep [] = []"
| "join sep [x] = x"
| "join sep (x # y # ys) = x @ sep @ join sep (y # ys)"

text \<open>\<open>Array.prototype.findIndex(pred)\<close>: the first index whose element satisfies the
  predicate, \<open>-1\<close> when there is none.\<close>

fun findIndex :: "('a \<Rightarrow> bool) \<Rightarrow> 'a list \<Rightarrow> int" where
  "findIndex P [] = - 1"
| "findIndex P (x # xs) =
     (if P x then 0
      else (let r = findIndex P xs in if r = - 1 then - 1 else r + 1))"

text \<open>\<open>Array.prototype.indexOf(x)\<close> on an array of strings: strict equality of strings
  is equality of their contents.\<close>

definition indexOf :: "string \<Rightarrow> string list \<Rightarrow> int" where
  "indexOf x xs = findIndex (\<lambda>y. y = x) xs"

text \<open>\<open>Array.prototype.splice(start)\<close> called with the single argument \<open>start\<close>
  (\<open>0 \<le> start\<close>): the delete count defaults to everything from \<open>start\<close> to the end
  of the array, so the array keeps its first \<open>start\<close> elements.\<close>

definition splice :: "int \<Rightarrow> 'a list \<Rightarrow> 'a list" where
  "splice start xs = take (nat start) xs"

text \<open>\<open>String.prototype.toLowerCase()\<close>, on the ASCII letters.\<close>

definition toLowerCase :: "string \<Rightarrow> string" where
  "toLowerCase s =
     map (\<lambda>c. if CHR ''A'' \<le> c \<and> c \<le> CHR ''Z'' then char_of (of_char c + (32::nat)) else c) s"

subsection \<open>Data model\<close>

record Account =
  account_id :: string
  account_label :: string

record AuthenticationSession =
  session_id :: string
  accessToken :: string
  account :: Account
  session_scopes :: "string list"

text \<open>A provider is an object of the extension. Its behaviour is data of the model:
  \<open>getSessions\<close> is the list its \<open>getSessions()\<close> resolves to, \<open>login\<close> the session its
  \<open>login(scopes)\<close> resolves to.\<close>

record AuthenticationProvider =
  provider_id :: string
  provider_label :: string
  supportsMultipleAccounts :: bool
  getSessions :: "AuthenticationSession list"
  login :: "string list \<Rightarrow> AuthenticationSession"

text \<open>A provider-information value \<open>{id, label}\<close> is an object, and \<open>indexOf\<close> on an
  array of objects compares with \<open>===\<close>, that is by identity and not by contents. The
  fields are never mutated, so an object is its address together with its fields.\<close>

record AuthenticationProviderInformation =
  addr :: nat
  info_id :: string
  info_label :: string

record PluginModel =
  model_id :: string
  model_name :: string
  displayName :: "string option"

record AuthenticationGetSessionOptions =
  createIfNone :: bool
  clearSessionPreference :: bool

text \<open>The source throws plain \<open>Error\<close> objects that differ in their message.\<close>

datatype error = Error string

definition ProviderNotFoundError :: "string \<Rightarrow> error" where
  "ProviderNotFoundError providerId =
     Error (''An authentication provider with id '' @ [CHR 0x27] @ providerId @ [CHR 0x27] @ '' was not found.'')"

definition ConsentDeniedError :: error where
  "ConsentDeniedError = Error ''User did not consent to login.''"

definition DuplicateProviderError :: "string \<Rightarrow> error" where
  "DuplicateProviderError providerId =
     Error (''An authentication provider with id '' @ [CHR 0x27] @ providerId @ [CHR 0x27] @ '' is already registered.'')"

subsection \<open>Collaborators\<close>

text \<open>The calls the broker makes: on the remote proxy, on the provider stored under a
  given id, and on its own emitter of provider changes.\<close>

datatype proxy_call =
    GetSessionsPrompt string string string string string
  | SelectSession string string string string "AuthenticationSession list" "string list" bool
  | LoginPrompt string string
  | SetTrustedExtensionAndAccountPreference string string string string string
  | RequestNewSession string "string list" string string
  | Logout string string
  | RegisterAuthenticationProvider string string bool
  | UnregisterAuthenticationProvider string

datatype provider_call =
    GetSessions
  | Login "string list"
  | LogoutSession string
  | OnDidChangeSessions
  | ListenerDispose

datatype effect =
    Proxy proxy_call
  | OnProvider string provider_call
  | FireProvidersChange "AuthenticationProviderInformation list" "AuthenticationProviderInformation list"

text \<open>What the remote proxy answers to the three calls whose result the broker reads.\<close>

record AuthenticationMain =
  getSessionsPrompt :: "string \<Rightarrow> string \<Rightarrow> string \<Rightarrow> string \<Rightarrow> string \<Rightarrow> bool"
  selectSession :: "string \<Rightarrow> string \<Rightarrow> string \<Rightarrow> string \<Rightarrow> AuthenticationSession list
                      \<Rightarrow> string list \<Rightarrow> bool \<Rightarrow> AuthenticationSession"
  loginPrompt :: "string \<Rightarrow> string \<Rightarrow> bool"

text \<open>The instance: \<open>providerIds\<close> is the field \<open>_providerIds\<close>, \<open>providers\<close> the field
  \<open>_providers\<close>; \<open>next_addr\<close> is the address the next object literal gets.\<close>

record AuthenticationExtImpl =
  proxy :: AuthenticationMain
  authenticationProviders :: "string \<rightharpoonup> AuthenticationProvider"
  providerIds :: "string list"
  providers :: "AuthenticationProviderInformation list"
  next_addr :: nat

subsection \<open>getSession\<close>

text \<open>The canonical scope key of line 76, and the predicate of the filter of line 77
  (which sorts a copy of the session's scopes).\<close>

definition orderedScopes :: "string list \<Rightarrow> string" where
  "orderedScopes scopes = join '' '' (sort scopes)"

definition sessionMatches :: "AuthenticationSession \<Rightarrow> string \<Rightarrow> bool" where
  "sessionMatches s key = (join '' '' (sort (session_scopes s)) = key)"

text \<open>Lines 69 and 70: \<open>displayName || name\<close> takes the name when the display name is
  undefined or empty; the extension id is lower-cased.\<close>

definition extensionName_of :: "PluginModel \<Rightarrow> string" where
  "extensionName_of requestingExtension =
     (case displayName requestingExtension of
        None \<Rightarrow> model_name requestingExtension
      | Some d \<Rightarrow> if d = [] then model_name requestingExtension else d)"

definition extensionId_of :: "PluginModel \<Rightarrow> string" where
  "extensionId_of requestingExtension = toLowerCase (model_id requestingExtension)"

text \<open>\<open>getSession\<close> returns the outcome (an error, or the session or \<open>undefined\<close>), the
  contents of the caller's \<open>scopes\<close> array after the call, and the calls made.
  \<open>scopes.sort()\<close> sorts the caller's array in place, so every later use of \<open>scopes\<close>
  reads the sorted array.\<close>

definition getSession ::
  "AuthenticationExtImpl \<Rightarrow> PluginModel \<Rightarrow> string \<Rightarrow> string list \<Rightarrow> AuthenticationGetSessionOptions
     \<Rightarrow> (error + AuthenticationSession option) \<times> string list \<times> effect list" where
  "getSession this requestingExtension providerId scopes options =
     (let extensionName = extensionName_of requestingExtension;
          extensionId = extensionId_of requestingExtension
      in case authenticationProviders this providerId of
           None \<Rightarrow> (Inl (ProviderNotFoundError providerId), scopes, [])
         | Some provider \<Rightarrow>
             (let sorted_scopes = sort scopes;
                  key = join '' '' sorted_scopes;
                  sessions = filter (\<lambda>s. sessionMatches s key) (getSessions provider)
              in case sessions of
                   session # rest \<Rightarrow>
                     if \<not> supportsMultipleAccounts provider then
                       (let allowed = getSessionsPrompt (proxy this) providerId
                                        (account_label (account session)) (provider_label provider)
                                        extensionId extensionName
                        in ((if allowed then Inr (Some session) else Inl ConsentDeniedError),
                            sorted_scopes,
                            [OnProvider providerId GetSessions,
                             Proxy (GetSessionsPrompt providerId (account_label (account session))
                                      (provider_label provider) extensionId extensionName)]))
                     else
                       (let selected = selectSession (proxy this) providerId (provider_label provider)
                                         extensionId extensionName sessions sorted_scopes
                                         (clearSessionPreference options)
                        in (Inr (find (\<lambda>session. session_id session = session_id selected) sessions),
                            sorted_scopes,
                            [OnProvider providerId GetSessions,
                             Proxy (SelectSession providerId (provider_label provider) extensionId
                                      extensionName sessions sorted_scopes
                                      (clearSessionPreference options))]))
                 | [] \<Rightarrow>
                     if createIfNone options then
                       (let isAllowed = loginPrompt (proxy this) (provider_label provider) extensionName
                        in if \<not> isAllowed then
                             (Inl ConsentDeniedError, sorted_scopes,
                              [OnProvider providerId GetSessions,
                               Proxy (LoginPrompt (provider_label provider) extensionName)])
                           else
                             (let session = login provider sorted_scopes
                              in (Inr (Some session), sorted_scopes,
                                  [OnProvider providerId GetSessions,
                                   Proxy (LoginPrompt (provider_label provider) extensionName),
                                   OnProvider providerId (Login sorted_scopes),
                                   Proxy (SetTrustedExtensionAndAccountPreference providerId
                                            (account_label (account session)) extensionId
                                            extensionName (session_id session))])))
                     else
                       (Inr None, sorted_scopes,
                        [OnProvider providerId GetSessions,
                         Proxy (RequestNewSession providerId sorted_scopes extensionId extensionName)])))"

subsection \<open>logout\<close>

definition logout :: "AuthenticationExtImpl \<Rightarrow> string \<Rightarrow> string \<Rightarrow> effect list" where
  "logout this providerId sessionId =
     (case authenticationProviders this providerId of
        None \<Rightarrow> [Proxy (Logout providerId sessionId)]
      | Some provider \<Rightarrow> [OnProvider providerId (LogoutSession sessionId)])"

subsection \<open>registerAuthenticationProvider and the disposer it returns\<close>

text \<open>The callback handed to \<open>new Disposable\<close> (lines 142 to 156): it disposes the
  listener, deletes the provider from the map, cuts both arrays with \<open>splice(index)\<close>
  and tells the proxy.\<close>

definition unregister ::
  "AuthenticationProvider \<Rightarrow> AuthenticationExtImpl \<Rightarrow> AuthenticationExtImpl \<times> effect list" where
  "unregister provider this =
     (let this1 = this\<lparr>authenticationProviders :=
                         (authenticationProviders this)(provider_id provider := None)\<rparr>;
          index = findIndex (\<lambda>x. x = provider_id provider) (providerIds this1);
          this2 = (if index > - 1
                   then this1\<lparr>providerIds := splice index (providerIds this1)\<rparr> else this1);
          i = findIndex (\<lambda>p. info_id p = provider_id provider) (providers this2);
          this3 = (if i > - 1
                   then this2\<lparr>providers := splice i (providers this2)\<rparr> else this2)
      in (this3,
          [OnProvider (provider_id provider) ListenerDispose,
           Proxy (UnregisterAuthenticationProvider (provider_id provider))]))"

text \<open>Modelled from the spec: the class \<open>Disposable\<close> of \<open>types-impl\<close> is not part of the
  source file. The spec asks that the disposer is safe to invoke more than once, an
  idempotent no-op after the first call: the handle holds its callback until it has run
  it once.\<close>

record Disposable =
  disposable :: "(AuthenticationExtImpl \<Rightarrow> AuthenticationExtImpl \<times> effect list) option"

definition dispose ::
  "Disposable \<Rightarrow> AuthenticationExtImpl \<Rightarrow> Disposable \<times> AuthenticationExtImpl \<times> effect list" where
  "dispose d this =
     (case disposable d of
        None \<Rightarrow> (d, this, [])
      | Some func \<Rightarrow> (let (this', calls) = func this in (d\<lparr>disposable := None\<rparr>, this', calls)))"

definition registerAuthenticationProvider ::
  "AuthenticationProvider \<Rightarrow> AuthenticationExtImpl
     \<Rightarrow> (error + Disposable) \<times> AuthenticationExtImpl \<times> effect list" where
  "registerAuthenticationProvider provider this =
     (if authenticationProviders this (provider_id provider) \<noteq> None then
        (Inl (DuplicateProviderError (provider_id provider)), this, [])
      else
        (let this1 = this\<lparr>authenticationProviders :=
                            (authenticationProviders this)(provider_id provider \<mapsto> provider)\<rparr>;
             this2 = (if indexOf (provider_id provider) (providerIds this1) = - 1
                      then this1\<lparr>providerIds := providerIds this1 @ [provider_id provider]\<rparr>
                      else this1);
             this3 = (if find (\<lambda>p. info_id p = provider_id provider) (providers this2) = None
                      then this2\<lparr>providers := providers this2 @
                                    [\<lparr>addr = next_addr this2, info_id = provider_id provider,
                                      info_label = provider_label provider\<rparr>],
                                  next_addr := Suc (next_addr this2)\<rparr>
                      else this2)
         in (Inr \<lparr>disposable = Some (unregister provider)\<rparr>, this3,
             [OnProvider (provider_id provider) OnDidChangeSessions,
              Proxy (RegisterAuthenticationProvider (provider_id provider) (provider_label provider)
                       (supportsMultipleAccounts provider))])))"

subsection \<open>The remote broadcast of a change of the provider directory\<close>

text \<open>\<open>this._providers.indexOf(id)\<close> of line 193 searches an array of objects for an
  object: it finds the object itself, never another object with the same fields.\<close>

definition indexOfObject ::
  "AuthenticationProviderInformation \<Rightarrow> AuthenticationProviderInformation list \<Rightarrow> int" where
  "indexOfObject x xs = findIndex (\<lambda>y. addr y = addr x) xs"

text \<open>The two \<open>forEach\<close> loops of lines 192 to 203, on the array \<open>_providers\<close>.\<close>

fun addAll ::
  "AuthenticationProviderInformation list \<Rightarrow> AuthenticationProviderInformation list
     \<Rightarrow> AuthenticationProviderInformation list" where
  "addAll [] ps = ps"
| "addAll (x # added) ps =
     addAll added (if indexOfObject x ps = - 1 then ps @ [x] else ps)"

fun removeAll_providers ::
  "AuthenticationProviderInformation list \<Rightarrow> AuthenticationProviderInformation list
     \<Rightarrow> AuthenticationProviderInformation list" where
  "removeAll_providers [] ps = ps"
| "removeAll_providers (p # removed) ps =
     (let index = findIndex (\<lambda>provider. info_id provider = info_id p) ps
      in removeAll_providers removed (if index > - 1 then splice index ps else ps))"

definition onDidChangeAuthenticationProviders ::
  "AuthenticationProviderInformation list \<Rightarrow> AuthenticationProviderInformation list
     \<Rightarrow> AuthenticationExtImpl \<Rightarrow> AuthenticationExtImpl \<times> effect list" where
  "onDidChangeAuthenticationProviders added removed this =
     (this\<lparr>providers := removeAll_providers removed (addAll added (providers this))\<rparr>,
      [FireProvidersChange added removed])"

text \<open>A freshly constructed instance.\<close>

definition new_AuthenticationExtImpl :: "AuthenticationMain \<Rightarrow> AuthenticationExtImpl" where
  "new_AuthenticationExtImpl p =
     \<lparr>proxy = p, authenticationProviders = Map.empty, providerIds = [], providers = [],
      next_addr = 0\<rparr>"

subsection \<open>Observations on the calls made\<close>

fun isRequestNewSession :: "effect \<Rightarrow> bool" where
  "isRequestNewSession (Proxy (RequestNewSession providerId scopes extensionId extensionName)) = True"
| "isRequestNewSession e = False"

fun isLogin :: "effect \<Rightarrow> bool" where
  "isLogin (OnProvider providerId (Login scopes)) = True"
| "isLogin e = False"

fun isProxy :: "effect \<Rightarrow> bool" where
  "isProxy (Proxy c) = True"
| "isProxy e = False"

subsection \<open>Concrete values: sessions, providers, two proxies, an extension\<close>

definition s1 :: AuthenticationSession where
  "s1 = \<lparr>session_id = ''s1'', accessToken = ''token-1'',
         account = \<lparr>account_id = ''1'', account_label = ''alice''\<rparr>,
         session_scopes = [''repo'', ''gist'']\<rparr>"

definition s2 :: AuthenticationSession where
  "s2 = \<lparr>session_id = ''s2'', accessToken = ''token-2'',
         account = \<lparr>account_id = ''2'', account_label = ''bob''\<rparr>,
         session_scopes = [''gist'', ''repo'']\<rparr>"

definition s3 :: AuthenticationSession where
  "s3 = \<lparr>session_id = ''s3'', accessToken = ''token-3'',
         account = \<lparr>account_id = ''3'', account_label = ''carol''\<rparr>,
         session_scopes = [''gist'', ''repo'']\<rparr>"

definition newSession :: "string list \<Rightarrow> AuthenticationSession" where
  "newSession scopes =
     \<lparr>session_id = ''s9'', accessToken = ''token-9'',
      account = \<lparr>account_id = ''9'', account_label = ''dave''\<rparr>,
      session_scopes = scopes\<rparr>"

definition p1 :: AuthenticationProvider where
  "p1 = \<lparr>provider_id = ''p1'', provider_label = ''Provider One'',
         supportsMultipleAccounts = False, getSessions = [s1], login = newSession\<rparr>"

definition p1_again :: AuthenticationProvider where
  "p1_again = \<lparr>provider_id = ''p1'', provider_label = ''Another One'',
               supportsMultipleAccounts = True, getSessions = [], login = newSession\<rparr>"

definition p2 :: AuthenticationProvider where
  "p2 = \<lparr>provider_id = ''p2'', provider_label = ''Provider Two'',
         supportsMultipleAccounts = True, getSessions = [s1, s2], login = newSession\<rparr>"

definition granting :: AuthenticationMain where
  "granting = \<lparr>getSessionsPrompt = (\<lambda>a b c d e. True),
               selectSession = (\<lambda>a b c d sessions scopes force. s2),
               loginPrompt = (\<lambda>a b. True)\<rparr>"

definition declining :: AuthenticationMain where
  "declining = \<lparr>getSessionsPrompt = (\<lambda>a b c d e. False),
                selectSession = (\<lambda>a b c d sessions scopes force. s3),
                loginPrompt = (\<lambda>a b. False)\<rparr>"

definition ext :: PluginModel where
  "ext = \<lparr>model_id = ''Vendor.Ext'', model_name = ''ext'', displayName = Some ''Extension''\<rparr>"






definition registry :: "AuthenticationMain \<Rightarrow> AuthenticationExtImpl" where
  "registry p =
     fst (snd (registerAuthenticationProvider p2
       (fst (snd (registerAuthenticationProvider p1 (new_AuthenticationExtImpl p))))))"

section \<open>Properties\<close>

subsection \<open>Auxiliary facts\<close>


lemma findIndex_lower: "- 1 \<le> findIndex P xs"
  by (induction xs) (auto simp: Let_def)

lemma findIndex_absent: "findIndex P xs = - 1 \<longleftrightarrow> (\<forall>x \<in> set xs. \<not> P x)"
proof (induction xs)
  case Nil
  show ?case by simp
next
  case (Cons x xs)
  have "findIndex P xs + 1 \<noteq> - 1" using findIndex_lower [of P xs] by arith
  with Cons show ?case by (auto simp: Let_def)
qed

lemma splice_findIndex:
  "- 1 < findIndex P xs \<Longrightarrow> splice (findIndex P xs) xs = takeWhile (\<lambda>x. \<not> P x) xs"
proof (induction xs)
  case Nil
  then show ?case by simp
next
  case (Cons x xs)
  show ?case
  proof (cases "P x")
    case True
    then show ?thesis by (simp add: splice_def)
  next
    case False
    with Cons.prems have found: "findIndex P xs \<noteq> - 1" by (auto simp: Let_def split: if_splits)
    with findIndex_lower [of P xs] have pos: "- 1 < findIndex P xs" by arith
    then have nn: "0 \<le> findIndex P xs" by arith
    from Cons.IH [OF pos] have "take (nat (findIndex P xs)) xs = takeWhile (\<lambda>x. \<not> P x) xs"
      by (simp add: splice_def)
    with False found nn show ?thesis
      by (simp add: splice_def Let_def nat_add_distrib)
  qed
qed

lemma no_candidates:
  "\<forall>s \<in> set (getSessions provider). \<not> sessionMatches s (orderedScopes scopes) \<Longrightarrow>
   filter (\<lambda>s. sessionMatches s (join '' '' (sort scopes))) (getSessions provider) = []"
  by (simp add: orderedScopes_def filter_empty_conv)

text \<open>The registry after \<open>p1\<close> and then \<open>p2\<close> have been registered on a fresh instance.\<close>

lemma registry_eval:
  "registry p = \<lparr>proxy = p, authenticationProviders = [''p1'' \<mapsto> p1, ''p2'' \<mapsto> p2],
      providerIds = [''p1'', ''p2''],
      providers = [\<lparr>addr = 0, info_id = ''p1'', info_label = ''Provider One''\<rparr>,
                   \<lparr>addr = 1, info_id = ''p2'', info_label = ''Provider Two''\<rparr>],
      next_addr = 2\<rparr>"
  by (simp add: registry_def registerAuthenticationProvider_def new_AuthenticationExtImpl_def
      p1_def p2_def indexOf_def Let_def)

lemma registry_maps:
  "authenticationProviders (registry p) ''p1'' = Some p1"
  "authenticationProviders (registry p) ''p2'' = Some p2"
  "authenticationProviders (registry p) ''p3'' = None"
  "proxy (registry p) = p"
  by (simp_all add: registry_eval)

lemma ext_id: "extensionId_of ext = ''vendor.ext''"
  by code_simp

lemma ext_name: "extensionName_of ext = ''Extension''"
  by (simp add: extensionName_of_def ext_def)

text \<open>A broadcast that removes only ids that are not in the list leaves the list as it is.\<close>

lemma removeAll_providers_absent:
  "\<forall>p \<in> set removed. \<forall>q \<in> set ps. info_id q \<noteq> info_id p \<Longrightarrow> removeAll_providers removed ps = ps"
proof (induction removed)
  case Nil
  show ?case by simp
next
  case (Cons p removed)
  then have "findIndex (\<lambda>provider. info_id provider = info_id p) ps = - 1"
    by (simp add: findIndex_absent)
  with Cons show ?case by simp
qed

text \<open>A handle that has been disposed once does nothing when disposed again.\<close>

lemma dispose_again:
  "dispose (fst (dispose d this)) this' = (fst (dispose d this), this', [])"
  by (cases "disposable d") (simp_all add: dispose_def split: prod.split)

subsection \<open>The canonical scope key\<close>





lemma keys:
  "sort [''b'', ''a''] = [''a'', ''b'']" "sort [''A'', ''b''] = [''A'', ''b'']" "sort [''a''] = [''a'']"
  "join '' '' (sort [''a'', ''b'']) = ''a b''"
  "join '' '' (sort [''a'', ''a'']) = ''a a''"
  by simp_all





subsection \<open>Registration\<close>

text \<open>C5. When the id of the provider is already in the map, \<open>registerAuthenticationProvider\<close>
  fails with the duplicate-provider error, makes no call, and leaves the instance (map, id
  list, information list) as it was: the first provider is still the one stored under
  the id.\<close>

theorem register_duplicate_rejected:
  assumes "authenticationProviders this (provider_id provider) = Some first"
  shows "registerAuthenticationProvider provider this =
           (Inl (DuplicateProviderError (provider_id provider)), this, [])
         \<and> authenticationProviders (fst (snd (registerAuthenticationProvider provider this)))
             (provider_id provider) = Some first"
  using assms by (simp add: registerAuthenticationProvider_def)

theorem register_duplicate_rejected_witness:
  "authenticationProviders (registry granting) (provider_id p1_again) = Some p1
   \<and> registerAuthenticationProvider p1_again (registry granting) =
       (Inl (DuplicateProviderError ''p1''), registry granting, [])"
  using register_duplicate_rejected [of "registry granting" p1_again p1]
  by (simp add: registry_maps p1_again_def)

text \<open>C1. Disposing the handle of a registration should remove that provider's id and
  information entry and nothing else. The callback cuts both arrays with \<open>splice(index)\<close>,
  which drops every element from \<open>index\<close> on: with \<open>p1\<close> registered before \<open>p2\<close>, disposing
  the handle of \<open>p1\<close> empties the id list and the information list, while \<open>p2\<close> is still in
  the map.\<close>

theorem dispose_drops_later_registrations:
  "(case fst (registerAuthenticationProvider p1 (new_AuthenticationExtImpl granting)) of
      Inl e \<Rightarrow> False
    | Inr handle \<Rightarrow>
        providerIds (registry granting) = [''p1'', ''p2'']
        \<and> map info_id (providers (registry granting)) = [''p1'', ''p2'']
        \<and> providerIds (fst (snd (dispose handle (registry granting)))) = []
        \<and> providers (fst (snd (dispose handle (registry granting)))) = []
        \<and> authenticationProviders (fst (snd (dispose handle (registry granting)))) ''p2'' = Some p2)"
  by (simp add: registry_eval registerAuthenticationProvider_def new_AuthenticationExtImpl_def
      dispose_def unregister_def splice_def p1_def Let_def)

subsection \<open>Remote changes of the provider directory\<close>

text \<open>C2. A broadcast that adds an information object whose id is already in the list
  should not add a second entry. The guard is \<open>indexOf\<close> on an array of objects, which
  looks for the object itself: the object of the broadcast is never the object pushed
  by the registration, so the list gets a second entry for \<open>p1\<close>, and a third when the
  broadcast arrives again.\<close>

theorem remote_added_duplicates_present_id:
  "map info_id (providers (fst (onDidChangeAuthenticationProviders
       [\<lparr>addr = 7, info_id = ''p1'', info_label = ''Provider One''\<rparr>] [] (registry granting))))
     = [''p1'', ''p2'', ''p1'']
   \<and> map info_id (providers (fst (onDidChangeAuthenticationProviders
       [\<lparr>addr = 8, info_id = ''p1'', info_label = ''Provider One''\<rparr>] []
       (fst (onDidChangeAuthenticationProviders
          [\<lparr>addr = 7, info_id = ''p1'', info_label = ''Provider One''\<rparr>] [] (registry granting))))))
     = [''p1'', ''p2'', ''p1'', ''p1'']"
  by (simp add: registry_eval onDidChangeAuthenticationProviders_def indexOfObject_def)

text \<open>C3. A broadcast that removes an id should drop the entries with that id and leave
  the others. The loop cuts the list with \<open>splice(index)\<close>: removing \<open>p1\<close>, the first entry,
  also drops the entry of \<open>p2\<close>.\<close>

theorem remote_removed_drops_later_entries:
  "providers (fst (onDidChangeAuthenticationProviders []
       [\<lparr>addr = 7, info_id = ''p1'', info_label = ''Provider One''\<rparr>] (registry granting))) = []"
  by (simp add: registry_eval onDidChangeAuthenticationProviders_def splice_def)

subsection \<open>getSession without a matching session\<close>

text \<open>C6. With \<open>createIfNone\<close> false, on a registered provider none of whose sessions has
  the requested scope key, \<open>getSession\<close> returns \<open>undefined\<close> and no error, and makes
  exactly one \<open>requestNewSession\<close> call on the proxy.\<close>

theorem getSession_none_requests_new_session:
  assumes "authenticationProviders this providerId = Some provider"
    and "\<not> createIfNone options"
    and "\<forall>s \<in> set (getSessions provider). \<not> sessionMatches s (orderedScopes scopes)"
  shows "getSession this requestingExtension providerId scopes options =
           (Inr None, sort scopes,
            [OnProvider providerId GetSessions,
             Proxy (RequestNewSession providerId (sort scopes)
                      (extensionId_of requestingExtension) (extensionName_of requestingExtension))])
         \<and> length (filter isRequestNewSession
              (snd (snd (getSession this requestingExtension providerId scopes options)))) = 1"
  using assms(1,2) no_candidates [OF assms(3)] by (simp add: getSession_def Let_def)

theorem getSession_none_requests_new_session_witness:
  "authenticationProviders (registry granting) ''p1'' = Some p1
   \<and> \<not> createIfNone \<lparr>createIfNone = False, clearSessionPreference = False\<rparr>
   \<and> getSessions p1 = [s1]
   \<and> \<not> sessionMatches s1 (orderedScopes [''repo''])
   \<and> getSession (registry granting) ext ''p1'' [''repo'']
        \<lparr>createIfNone = False, clearSessionPreference = False\<rparr> =
       (Inr None, [''repo''],
        [OnProvider ''p1'' GetSessions,
         Proxy (RequestNewSession ''p1'' [''repo''] ''vendor.ext'' ''Extension'')])"
proof -
  have h: "\<forall>s \<in> set (getSessions p1). \<not> sessionMatches s (orderedScopes [''repo''])"
    by (simp add: p1_def s1_def sessionMatches_def orderedScopes_def)
  have gs: "getSessions p1 = [s1]"
    by (simp add: p1_def)
  have nm: "\<not> sessionMatches s1 (orderedScopes [''repo''])"
    using h by (simp add: gs)
  show ?thesis
    using getSession_none_requests_new_session [of "registry granting" "''p1''" p1
        "\<lparr>createIfNone = False, clearSessionPreference = False\<rparr>" "[''repo'']" ext] h nm
    by (simp add: registry_maps ext_id ext_name gs)
qed

text \<open>C7. With \<open>createIfNone\<close> true, on a registered provider without a matching session:
  when the proxy declines \<open>loginPrompt\<close>, \<open>getSession\<close> fails with the consent error and
  no \<open>login\<close> is called on any provider; when the proxy grants it, \<open>login\<close> is called on the
  provider with the (now sorted) scopes array, the preference is stored through the
  proxy, and the session that \<open>login\<close> produced is returned.\<close>

theorem getSession_createIfNone_consent:
  assumes "authenticationProviders this providerId = Some provider"
    and "createIfNone options"
    and "\<forall>s \<in> set (getSessions provider). \<not> sessionMatches s (orderedScopes scopes)"
  shows "(\<not> loginPrompt (proxy this) (provider_label provider) (extensionName_of requestingExtension) \<longrightarrow>
            fst (getSession this requestingExtension providerId scopes options) = Inl ConsentDeniedError
            \<and> filter isLogin (snd (snd (getSession this requestingExtension providerId scopes options))) = [])
         \<and> (loginPrompt (proxy this) (provider_label provider) (extensionName_of requestingExtension) \<longrightarrow>
            getSession this requestingExtension providerId scopes options =
              (Inr (Some (login provider (sort scopes))), sort scopes,
               [OnProvider providerId GetSessions,
                Proxy (LoginPrompt (provider_label provider) (extensionName_of requestingExtension)),
                OnProvider providerId (Login (sort scopes)),
                Proxy (SetTrustedExtensionAndAccountPreference providerId
                         (account_label (account (login provider (sort scopes))))
                         (extensionId_of requestingExtension) (extensionName_of requestingExtension)
                         (session_id (login provider (sort scopes))))]))"
  using assms(1,2) no_candidates [OF assms(3)] by (simp add: getSession_def Let_def)

theorem getSession_createIfNone_consent_witness:
  "authenticationProviders (registry declining) ''p1'' = Some p1
   \<and> authenticationProviders (registry granting) ''p1'' = Some p1
   \<and> createIfNone \<lparr>createIfNone = True, clearSessionPreference = False\<rparr>
   \<and> getSessions p1 = [s1]
   \<and> \<not> sessionMatches s1 (orderedScopes [''write'', ''admin''])
   \<and> \<not> loginPrompt (proxy (registry declining)) (provider_label p1) (extensionName_of ext)
   \<and> fst (getSession (registry declining) ext ''p1'' [''write'', ''admin'']
        \<lparr>createIfNone = True, clearSessionPreference = False\<rparr>) = Inl ConsentDeniedError
   \<and> loginPrompt (proxy (registry granting)) (provider_label p1) (extensionName_of ext)
   \<and> getSession (registry granting) ext ''p1'' [''write'', ''admin'']
        \<lparr>createIfNone = True, clearSessionPreference = False\<rparr> =
       (Inr (Some (newSession [''admin'', ''write''])), [''admin'', ''write''],
        [OnProvider ''p1'' GetSessions,
         Proxy (LoginPrompt ''Provider One'' ''Extension''),
         OnProvider ''p1'' (Login [''admin'', ''write'']),
         Proxy (SetTrustedExtensionAndAccountPreference ''p1'' ''dave'' ''vendor.ext'' ''Extension'' ''s9'')])"
proof -
  have h: "\<forall>s \<in> set (getSessions p1). \<not> sessionMatches s (orderedScopes [''write'', ''admin''])"
    by (simp add: p1_def s1_def sessionMatches_def orderedScopes_def)
  have l: "login p1 = newSession" "provider_label p1 = ''Provider One''"
    by (simp_all add: p1_def)
  have gs: "getSessions p1 = [s1]"
    by (simp add: p1_def)
  have n: "account_label (account (newSession [''admin'', ''write''])) = ''dave''"
          "session_id (newSession [''admin'', ''write'']) = ''s9''"
    by (simp_all add: newSession_def)
  have srt: "sort [''write'', ''admin''] = [''admin'', ''write'']"
    by simp
  have d: "\<not> loginPrompt declining ''Provider One'' ''Extension''"
    by (simp add: declining_def)
  have g: "loginPrompt granting ''Provider One'' ''Extension''"
    by (simp add: granting_def)
  show ?thesis
    using getSession_createIfNone_consent [of "registry declining" "''p1''" p1
        "\<lparr>createIfNone = True, clearSessionPreference = False\<rparr>" "[''write'', ''admin'']" ext]
      getSession_createIfNone_consent [of "registry granting" "''p1''" p1
        "\<lparr>createIfNone = True, clearSessionPreference = False\<rparr>" "[''write'', ''admin'']" ext]
      h d g
    by (simp add: registry_maps ext_id ext_name l n srt gs)
qed

subsection \<open>logout\<close>

text \<open>C9. \<open>logout\<close> calls \<open>logout(sessionId)\<close> on the provider registered under the id and
  makes no call on the proxy; when no provider is registered under the id it forwards
  the same id and session id to the proxy.\<close>

theorem logout_delegates_or_forwards:
  "(authenticationProviders this providerId = Some provider \<longrightarrow>
      logout this providerId sessionId = [OnProvider providerId (LogoutSession sessionId)]
      \<and> filter isProxy (logout this providerId sessionId) = [])
   \<and> (authenticationProviders this providerId = None \<longrightarrow>
      logout this providerId sessionId = [Proxy (Logout providerId sessionId)])"
  by (simp add: logout_def)

theorem logout_delegates_or_forwards_witness:
  "authenticationProviders (registry granting) ''p1'' = Some p1
   \<and> logout (registry granting) ''p1'' ''s1'' = [OnProvider ''p1'' (LogoutSession ''s1'')]
   \<and> authenticationProviders (registry granting) ''p3'' = None
   \<and> logout (registry granting) ''p3'' ''s1'' = [Proxy (Logout ''p3'' ''s1'')]"
  using logout_delegates_or_forwards [of "registry granting" "''p1''" p1 "''s1''"]
        logout_delegates_or_forwards [of "registry granting" "''p3''" p1 "''s1''"]
  by (simp add: registry_maps)

subsection \<open>getSession on a provider with several accounts\<close>

text \<open>C8. On a registered provider that supports multiple accounts and has at least one
  session with the requested scope key, \<open>getSession\<close> asks the proxy to select among the
  candidates and returns the first candidate whose id is the id of the selected
  session; when no candidate has that id it returns \<open>undefined\<close>, not an error.\<close>

theorem getSession_multi_account_selection:
  assumes "authenticationProviders this providerId = Some provider"
    and "supportsMultipleAccounts provider"
    and "candidates = filter (\<lambda>s. sessionMatches s (orderedScopes scopes)) (getSessions provider)"
    and "candidates \<noteq> []"
    and "selected = selectSession (proxy this) providerId (provider_label provider)
                      (extensionId_of requestingExtension) (extensionName_of requestingExtension)
                      candidates (sort scopes) (clearSessionPreference options)"
  shows "getSession this requestingExtension providerId scopes options =
           (Inr (find (\<lambda>session. session_id session = session_id selected) candidates), sort scopes,
            [OnProvider providerId GetSessions,
             Proxy (SelectSession providerId (provider_label provider)
                      (extensionId_of requestingExtension) (extensionName_of requestingExtension)
                      candidates (sort scopes) (clearSessionPreference options))])
         \<and> (\<forall>s. find (\<lambda>session. session_id session = session_id selected) candidates = Some s \<longrightarrow>
                s \<in> set candidates \<and> session_id s = session_id selected)
         \<and> (session_id selected \<in> session_id ` set candidates \<longrightarrow>
                (\<exists>s. fst (getSession this requestingExtension providerId scopes options) = Inr (Some s)))
         \<and> (session_id selected \<notin> session_id ` set candidates \<longrightarrow>
                fst (getSession this requestingExtension providerId scopes options) = Inr None)"
proof -
  let ?found = "find (\<lambda>session. session_id session = session_id selected) candidates"
  obtain c cs where cand: "candidates = c # cs"
    using assms(4) by (cases candidates) auto
  have cs: "filter (\<lambda>s. sessionMatches s (join '' '' (sort scopes))) (getSessions provider) = c # cs"
    using assms(3) cand by (simp add: orderedScopes_def)
  have g: "getSession this requestingExtension providerId scopes options =
           (Inr ?found, sort scopes,
            [OnProvider providerId GetSessions,
             Proxy (SelectSession providerId (provider_label provider)
                      (extensionId_of requestingExtension) (extensionName_of requestingExtension)
                      candidates (sort scopes) (clearSessionPreference options))])"
    using assms(1,2,5) cs cand by (simp add: getSession_def Let_def)
  have r: "fst (getSession this requestingExtension providerId scopes options) = Inr ?found"
    unfolding g by (rule fst_conv)
  have f1: "\<forall>s. ?found = Some s \<longrightarrow> s \<in> set candidates \<and> session_id s = session_id selected"
    by (auto simp: find_Some_iff)
  have f2: "session_id selected \<in> session_id ` set candidates \<longrightarrow>
              (\<exists>s. fst (getSession this requestingExtension providerId scopes options) = Inr (Some s))"
  proof
    assume "session_id selected \<in> session_id ` set candidates"
    then obtain x where "x \<in> set candidates" "session_id x = session_id selected" by auto
    then have "?found \<noteq> None" unfolding find_None_iff by blast
    then obtain s where "?found = Some s" by blast
    then have "fst (getSession this requestingExtension providerId scopes options) = Inr (Some s)"
      unfolding r by (rule arg_cong)
    then show "\<exists>s. fst (getSession this requestingExtension providerId scopes options) = Inr (Some s)"
      by (rule exI)
  qed
  have f3: "session_id selected \<notin> session_id ` set candidates \<longrightarrow>
              fst (getSession this requestingExtension providerId scopes options) = Inr None"
  proof
    assume n: "session_id selected \<notin> session_id ` set candidates"
    have "\<not> (\<exists>x. x \<in> set candidates \<and> session_id x = session_id selected)"
    proof
      assume "\<exists>x. x \<in> set candidates \<and> session_id x = session_id selected"
      then obtain x where "x \<in> set candidates" "session_id x = session_id selected" by blast
      then have "session_id selected \<in> session_id ` set candidates" by (metis imageI)
      with n show False by (rule notE)
    qed
    then have "?found = None" unfolding find_None_iff by blast
    then show "fst (getSession this requestingExtension providerId scopes options) = Inr None"
      unfolding r by (rule arg_cong)
  qed
  from g f1 f2 f3 show ?thesis by (intro conjI)
qed

theorem getSession_multi_account_selection_witness:
  "authenticationProviders (registry granting) ''p2'' = Some p2
   \<and> authenticationProviders (registry declining) ''p2'' = Some p2
   \<and> supportsMultipleAccounts p2
   \<and> [s1, s2] = filter (\<lambda>s. sessionMatches s (orderedScopes [''repo'', ''gist''])) (getSessions p2)
   \<and> [s1, s2] \<noteq> []
   \<and> getSession (registry granting) ext ''p2'' [''repo'', ''gist'']
        \<lparr>createIfNone = False, clearSessionPreference = True\<rparr> =
       (Inr (Some s2), [''gist'', ''repo''],
        [OnProvider ''p2'' GetSessions,
         Proxy (SelectSession ''p2'' ''Provider Two'' ''vendor.ext'' ''Extension''
                  [s1, s2] [''gist'', ''repo''] True)])
   \<and> session_id s3 \<notin> session_id ` set [s1, s2]
   \<and> fst (getSession (registry declining) ext ''p2'' [''repo'', ''gist'']
        \<lparr>createIfNone = False, clearSessionPreference = True\<rparr>) = Inr None"
proof -
  let ?opts = "\<lparr>createIfNone = False, clearSessionPreference = True\<rparr>"
  have ag: "authenticationProviders (registry granting) ''p2'' = Some p2"
    by (rule registry_maps)
  have ad: "authenticationProviders (registry declining) ''p2'' = Some p2"
    by (rule registry_maps)
  have m: "supportsMultipleAccounts p2"
    by (simp add: p2_def)
  have lbl: "provider_label p2 = ''Provider Two''"
    by (simp add: p2_def)
  have c: "[s1, s2] = filter (\<lambda>s. sessionMatches s (orderedScopes [''repo'', ''gist''])) (getSessions p2)"
    by (simp add: p2_def s1_def s2_def sessionMatches_def orderedScopes_def)
  have ne: "[s1, s2] \<noteq> []"
    by simp
  have srt: "sort [''repo'', ''gist''] = [''gist'', ''repo'']"
    by simp
  have selg: "s2 = selectSession (proxy (registry granting)) ''p2'' (provider_label p2)
                 (extensionId_of ext) (extensionName_of ext) [s1, s2] (sort [''repo'', ''gist''])
                 (clearSessionPreference ?opts)"
    by (simp add: registry_maps granting_def)
  have seld: "s3 = selectSession (proxy (registry declining)) ''p2'' (provider_label p2)
                 (extensionId_of ext) (extensionName_of ext) [s1, s2] (sort [''repo'', ''gist''])
                 (clearSessionPreference ?opts)"
    by (simp add: registry_maps declining_def)
  have absent: "session_id s3 \<notin> session_id ` set [s1, s2]"
    by (simp add: s1_def s2_def s3_def)
  have fnd: "find (\<lambda>session. session_id session = session_id s2) [s1, s2] = Some s2"
    by (simp add: s1_def s2_def)
  have tg: "getSession (registry granting) ext ''p2'' [''repo'', ''gist''] ?opts =
       (Inr (Some s2), [''gist'', ''repo''],
        [OnProvider ''p2'' GetSessions,
         Proxy (SelectSession ''p2'' ''Provider Two'' ''vendor.ext'' ''Extension''
                  [s1, s2] [''gist'', ''repo''] True)])"
    using getSession_multi_account_selection [OF ag m c ne selg]
    by (simp only: fnd srt lbl ext_id ext_name) simp
  have td: "fst (getSession (registry declining) ext ''p2'' [''repo'', ''gist''] ?opts) = Inr None"
    using getSession_multi_account_selection [OF ad m c ne seld] absent
    by blast
  from ag ad m c ne tg absent td show ?thesis
    by (intro conjI)
qed

subsection \<open>The caller's scopes array\<close>

text \<open>C10. On a registered provider, \<open>getSession\<close> sorts the caller's \<open>scopes\<close> array in
  place: after the call the array holds the sorted permutation of what it held before,
  and every \<open>selectSession\<close> call on the proxy carries the sorted array.\<close>

theorem getSession_sorts_caller_scopes:
  assumes "authenticationProviders this providerId = Some provider"
  shows "fst (snd (getSession this requestingExtension providerId scopes options)) = sort scopes
         \<and> sorted (fst (snd (getSession this requestingExtension providerId scopes options)))
         \<and> mset (fst (snd (getSession this requestingExtension providerId scopes options))) = mset scopes
         \<and> (\<forall>a b c d cands sc f.
               Proxy (SelectSession a b c d cands sc f)
                 \<in> set (snd (snd (getSession this requestingExtension providerId scopes options)))
               \<longrightarrow> sc = sort scopes)"
proof -
  have a: "fst (snd (getSession this requestingExtension providerId scopes options)) = sort scopes"
    using assms by (simp add: getSession_def Let_def split: list.split)
  have b: "\<forall>a b c d cands sc f.
               Proxy (SelectSession a b c d cands sc f)
                 \<in> set (snd (snd (getSession this requestingExtension providerId scopes options)))
               \<longrightarrow> sc = sort scopes"
    using assms by (simp add: getSession_def Let_def split: list.split)
  show ?thesis using a b by simp
qed

theorem getSession_sorts_caller_scopes_witness:
  "authenticationProviders (registry granting) ''p2'' = Some p2
   \<and> fst (snd (getSession (registry granting) ext ''p2'' [''repo'', ''gist'']
        \<lparr>createIfNone = False, clearSessionPreference = False\<rparr>)) = [''gist'', ''repo'']
   \<and> sorted [''gist'', ''repo'']
   \<and> mset [''gist'', ''repo''] = mset [''repo'', ''gist'']
   \<and> Proxy (SelectSession ''p2'' ''Provider Two'' ''vendor.ext'' ''Extension''
               [s1, s2] [''gist'', ''repo''] False)
       \<in> set (snd (snd (getSession (registry granting) ext ''p2'' [''repo'', ''gist'']
            \<lparr>createIfNone = False, clearSessionPreference = False\<rparr>)))"
proof -
  let ?opts = "\<lparr>createIfNone = False, clearSessionPreference = False\<rparr>"
  have ag: "authenticationProviders (registry granting) ''p2'' = Some p2"
    by (rule registry_maps)
  have srt: "sort [''repo'', ''gist''] = [''gist'', ''repo'']"
    by simp
  note t = getSession_sorts_caller_scopes [OF ag, of ext "[''repo'', ''gist'']" ?opts]
  have t1: "fst (snd (getSession (registry granting) ext ''p2'' [''repo'', ''gist''] ?opts))
              = [''gist'', ''repo'']"
    using t srt by (simp only:)
  have t2: "sorted [''gist'', ''repo'']"
    using t unfolding t1 by (rule conjunct1 [OF conjunct2])
  have t3: "mset [''gist'', ''repo''] = mset [''repo'', ''gist'']"
    using t unfolding t1 by (rule conjunct1 [OF conjunct2 [OF conjunct2]])
  have key: "join '' '' [''gist'', ''repo''] = ''gist repo''"
    by simp
  have fl: "filter (\<lambda>s. sessionMatches s ''gist repo'') (getSessions p2) = [s1, s2]"
    by (simp add: p2_def s1_def s2_def sessionMatches_def)
  have m: "supportsMultipleAccounts p2" "provider_label p2 = ''Provider Two''"
    by (simp_all add: p2_def)
  have tr: "snd (snd (getSession (registry granting) ext ''p2'' [''repo'', ''gist''] ?opts)) =
        [OnProvider ''p2'' GetSessions,
         Proxy (SelectSession ''p2'' ''Provider Two'' ''vendor.ext'' ''Extension''
                  [s1, s2] [''gist'', ''repo''] False)]"
    unfolding getSession_def Let_def registry_maps ext_id ext_name srt key
    by (simp add: fl m)
  have t4: "Proxy (SelectSession ''p2'' ''Provider Two'' ''vendor.ext'' ''Extension''
               [s1, s2] [''gist'', ''repo''] False)
       \<in> set (snd (snd (getSession (registry granting) ext ''p2'' [''repo'', ''gist''] ?opts)))"
    unfolding tr by simp
  from ag t1 t2 t3 t4 show ?thesis
    by (intro conjI)
qed

end
